theory Spec2Isabelle
  imports Main "HOL-Library.Word"
begin

section \<open>The FastAuth wallet module (src/lib/selector/fast-auth-wallet.ts)\<close>

text \<open>
  The module wires a wallet connection, a signer, an RPC provider and an HTTP relay
  together. None of these collaborators is defined in the file itself; each is taken
  as a field of an environment record \<open>env\<close>, a function of its arguments and of the
  external world \<open>'w\<close> (key store, chain, relay). An awaited promise is modelled by its
  settlement: \<open>Inl\<close> a rejection (the thrown value), \<open>Inr\<close> the value it resolves to.
  A JavaScript number holding a nonce is modelled by the integer it denotes, and \<open>+\<close> on
  such numbers by the exact sum rounded to the nearest double.
\<close>

subsection \<open>Data\<close>

text \<open>A thrown JavaScript value: \<open>new Error(msg)\<close>, or the engine's \<open>TypeError\<close> raised
  when a property of \<open>null\<close>/\<open>undefined\<close> is read.\<close>

datatype error = Error string | TypeError

text \<open>A \<open>PublicKey\<close> object of near-api-js, identified by what \<open>toString()\<close> prints.\<close>

datatype public_key = PublicKey (toString: string)

text \<open>The wallet selector's \<open>Account\<close>.\<close>

record Account =
  accountId :: string
  publicKey :: string

text \<open>The object returned by \<open>_state.wallet.account()\<close>: the fields the module reads.\<close>

record ConnectedAccount =
  acc_accountId :: string
  conn_networkId :: string

text \<open>\<open>Optional<Transaction, "signerId">\<close>, over the wallet selector's action type \<open>'act\<close>.\<close>

record 'act Transaction =
  receiverId :: string
  signerId :: "string option"
  actions :: "'act list"

datatype permission = FullAccess | FunctionCall string "string list"

record AccessKeyView =
  nonce :: int
  permission :: permission

record AccessKeyInfoView =
  public_key :: string
  access_key :: AccessKeyView

text \<open>The arguments of \<open>nearAPI.transactions.createTransaction\<close>, in its order.\<close>

record 'nact NearTransaction =
  tx_signerId :: string
  tx_publicKey :: public_key
  tx_receiverId :: string
  tx_nonce :: int
  tx_actions :: "'nact list"
  tx_blockHash :: "8 word list"

text \<open>The argument object of \<open>account.signedDelegate\<close>.\<close>

record 'nact SignedDelegateOptions =
  sd_actions :: "'nact list"
  blockHeightTtl :: nat
  sd_receiverId :: string

text \<open>The \<open>RequestInit\<close> given to \<open>fetch\<close>, and the part of a \<open>Response\<close> a caller could
  look at.\<close>

record RequestInit =
  http_method :: string
  mode :: string
  body :: string
  headers :: "(string \<times> string) list"

record Response =
  status :: nat
  response_body :: string

text \<open>The parameter object of \<open>signIn\<close>.\<close>

record SignInParams =
  contractId :: string
  methodNames :: "string list option"
  si_successUrl :: "string option"
  si_failureUrl :: "string option"
  email :: "string option"
  si_accountId :: "string option"
  isRecovery :: "bool option"

text \<open>What \<open>FastAuthWallet\<close> closes over besides \<open>_state\<close>: \<open>metadata.name\<close>,
  \<open>options.network.networkId\<close> and \<open>relayerUrl\<close>.\<close>

record WalletOptions =
  metadata_name :: string
  networkId :: string
  relayerUrl :: string

subsection \<open>Collaborators\<close>

text \<open>
  The calls the module makes on objects defined elsewhere (the wallet connection, the
  account, its signer and provider, near-api-js, wallet-utils and the browser's
  \<open>fetch\<close>). Queries read the world; \<open>requestSignIn\<close>, \<open>signOut\<close> and \<open>fetch\<close> may
  change it.
\<close>

record ('w, 'act, 'nact, 'sd) env =
  getAccountId :: "'w \<Rightarrow> string"
  account :: "'w \<Rightarrow> ConnectedAccount option"
  isSignedIn :: "'w \<Rightarrow> bool"
  wallet_signOut :: "'w \<Rightarrow> 'w"
  requestSignIn :: "SignInParams \<Rightarrow> 'w \<Rightarrow> (error + unit) \<times> 'w"
  getPublicKey :: "ConnectedAccount \<Rightarrow> string \<Rightarrow> string \<Rightarrow> 'w \<Rightarrow> error + public_key option"
  accessKeyForTransaction ::
    "ConnectedAccount \<Rightarrow> string \<Rightarrow> 'nact list \<Rightarrow> public_key option \<Rightarrow> 'w
       \<Rightarrow> error + AccessKeyInfoView option"
  block_final :: "ConnectedAccount \<Rightarrow> 'w \<Rightarrow> error + string"
  signedDelegate :: "ConnectedAccount \<Rightarrow> 'nact SignedDelegateOptions \<Rightarrow> 'w \<Rightarrow> error + 'sd"
  createAction :: "'act \<Rightarrow> 'nact"
  PublicKey_from :: "string \<Rightarrow> error + public_key"
  base_decode :: "string \<Rightarrow> error + 8 word list"
  encodeSignedDelegate :: "'sd \<Rightarrow> 8 word list"
  fetch :: "string \<Rightarrow> RequestInit \<Rightarrow> 'w \<Rightarrow> (error + Response) \<times> 'w"

text \<open>The calls with an effect outside the module are recorded, in the order they are made.\<close>

datatype 'nact event =
    RequestSignIn SignInParams
  | SignOut
  | SignedDelegateCall ConnectedAccount "'nact SignedDelegateOptions"
  | FetchCall string RequestInit

record ('w, 'nact) state =
  world :: 'w
  trace :: "'nact event list"

definition emit :: "'nact event \<Rightarrow> ('w, 'nact) state \<Rightarrow> ('w, 'nact) state" where
  "emit ev s = s\<lparr>trace := trace s @ [ev]\<rparr>"

subsection \<open>JavaScript numbers\<close>

text \<open>
  Nonces and indices are JavaScript numbers, that is, IEEE 754 doubles, here with integer
  values. Doubles carry 53 significant bits: up to \<open>2 ^ 53\<close> in magnitude every integer is
  a double, and from there on the doubles are \<open>ulp m\<close> apart, a spacing that doubles
  with each power of two. \<open>float64\<close> rounds an integer to the nearest double, a tie going
  to the double whose significand is even; \<open>js_add\<close> is the \<open>+\<close> of two such numbers.
  Magnitudes from \<open>2 ^ 1024\<close> on, where JavaScript yields \<open>Infinity\<close>, are not modelled.
\<close>

function ulp :: "int \<Rightarrow> int" where
  "ulp m = (if m < 2 ^ 53 then 1 else 2 * ulp (m div 2))"
  by pat_completeness auto
termination
  by (relation "measure nat") auto

declare ulp.simps [simp del]

definition float64 :: "int \<Rightarrow> int" where
  "float64 x =
     (let m = \<bar>x\<bar>; u = ulp m; q = m div u; r = m mod u;
          q' = (if 2 * r < u then q
                else if u < 2 * r then q + 1
                else if even q then q else q + 1)
      in sgn x * (q' * u))"

definition js_add :: "int \<Rightarrow> int \<Rightarrow> int" where
  "js_add a b = float64 (a + b)"

subsection \<open>\<open>resolveWalletUrl\<close> and \<open>setupFastAuthWallet\<close>\<close>

text \<open>An optional string parameter is truthy when it is given and not empty.\<close>

fun truthy :: "string option \<Rightarrow> bool" where
  "truthy None = False"
| "truthy (Some u) = (u \<noteq> [])"

definition resolveWalletUrl :: "string \<Rightarrow> string option \<Rightarrow> error + string" where
  "resolveWalletUrl network_id walletUrl =
     (if truthy walletUrl then Inr (the walletUrl)
      else if network_id = ''mainnet'' then Inr ''http://localhost:3000''
      else if network_id = ''testnet'' then Inr ''http://localhost:3000''
      else Inl (Error ''Invalid wallet url''))"

record FastAuthWalletParams =
  p_walletUrl :: "string option"
  p_iconUrl :: "string option"
  p_deprecated :: "bool option"
  p_successUrl :: "string option"
  p_failureUrl :: "string option"
  p_relayerUrl :: "string option"

record WalletMetadata =
  name :: string
  description :: "string option"
  iconUrl :: string
  deprecated :: bool
  available :: bool
  successUrl :: string
  failureUrl :: string
  walletUrl :: string

record WalletModule =
  module_id :: string
  module_type :: string
  metadata :: WalletMetadata

text \<open>A destructuring default applies when the property is \<open>undefined\<close>.\<close>

definition default_to :: "'a \<Rightarrow> 'a option \<Rightarrow> 'a" where
  "default_to d x = (case x of None \<Rightarrow> d | Some v \<Rightarrow> v)"

text \<open>The module factory returned by \<open>setupFastAuthWallet\<close>, applied to the network of
  \<open>moduleOptions.options\<close>; \<open>icon\<close> is the imported default icon.\<close>

definition setupFastAuthWallet ::
  "string \<Rightarrow> FastAuthWalletParams \<Rightarrow> string \<Rightarrow> error + WalletModule" where
  "setupFastAuthWallet icon p network_id =
     (case resolveWalletUrl network_id (p_walletUrl p) of
        Inl e \<Rightarrow> Inl e
      | Inr url \<Rightarrow>
          Inr \<lparr>module_id = ''fast-auth-wallet'', module_type = ''browser'',
               metadata = \<lparr>name = ''FastAuthWallet'',
                           description = None,
                           iconUrl = default_to icon (p_iconUrl p),
                           deprecated = default_to False (p_deprecated p),
                           available = True,
                           successUrl = default_to [] (p_successUrl p),
                           failureUrl = default_to [] (p_failureUrl p),
                           walletUrl = url\<rparr>\<rparr>)"

text \<open>The \<open>init\<close> callback of the module resolves the wallet URL again, for
  \<open>params.walletUrl\<close>, before \<open>FastAuthWallet\<close> sets any state up.\<close>

definition init_params :: "FastAuthWalletParams \<Rightarrow> string \<Rightarrow> error + string \<times> string" where
  "init_params p network_id =
     (case resolveWalletUrl network_id (p_walletUrl p) of
        Inl e \<Rightarrow> Inl e
      | Inr url \<Rightarrow> Inr (default_to [] (p_relayerUrl p), url))"

subsection \<open>\<open>getAccounts\<close>\<close>

definition getAccounts ::
  "('w, 'act, 'nact, 'sd) env \<Rightarrow> WalletOptions \<Rightarrow> 'w \<Rightarrow> error + Account list" where
  "getAccounts env opts w =
     (let account_id = getAccountId env w in
      case account env w of
        None \<Rightarrow> Inr []
      | Some a \<Rightarrow>
          if account_id = [] then Inr []
          else (case getPublicKey env a (acc_accountId a) (networkId opts) w of
                  Inl e \<Rightarrow> Inl e
                | Inr pk \<Rightarrow>
                    Inr [\<lparr>accountId = account_id,
                          publicKey = (case pk of None \<Rightarrow> [] | Some k \<Rightarrow> toString k)\<rparr>]))"

subsection \<open>\<open>transformTransactions\<close>\<close>

text \<open>The callback given to \<open>transactions.map\<close>, for one transaction and its index.\<close>

definition assemble ::
  "('w, 'act, 'nact, 'sd) env \<Rightarrow> ConnectedAccount \<Rightarrow> public_key option \<Rightarrow> 'w
     \<Rightarrow> nat \<times> 'act Transaction \<Rightarrow> error + 'nact NearTransaction" where
  "assemble env a localKey w it =
     (let index = fst it; transaction = snd it;
          near_actions = map (createAction env) (actions transaction) in
      case accessKeyForTransaction env a (receiverId transaction) near_actions localKey w of
        Inl e \<Rightarrow> Inl e
      | Inr None \<Rightarrow>
          Inl (Error (''Failed to find matching key for transaction sent to ''
                        @ receiverId transaction))
      | Inr (Some accessKey) \<Rightarrow>
          (case block_final env a w of
             Inl e \<Rightarrow> Inl e
           | Inr hash \<Rightarrow>
               (case PublicKey_from env (public_key accessKey) of
                  Inl e \<Rightarrow> Inl e
                | Inr pk \<Rightarrow>
                    (case base_decode env hash of
                       Inl e \<Rightarrow> Inl e
                     | Inr blockHash \<Rightarrow>
                         Inr \<lparr>tx_signerId = acc_accountId a, tx_publicKey = pk,
                              tx_receiverId = receiverId transaction,
                              tx_nonce = js_add (js_add (nonce (access_key accessKey)) (int index)) 1,
                              tx_actions = near_actions, tx_blockHash = blockHash\<rparr>))))"

text \<open>
  \<open>Promise.all\<close> over promises with the given settlements: it resolves to the values, in
  the order of the array, when every promise resolves; otherwise it rejects with the
  reason of the promise that rejects first in time, which can be any of the rejected ones.
  \<open>promise_all rs r\<close> says that \<open>r\<close> is a possible settlement.
\<close>

definition promise_all :: "(error + 'a) list \<Rightarrow> error + 'a list \<Rightarrow> bool" where
  "promise_all rs r = (case r of Inr vs \<Rightarrow> rs = map Inr vs | Inl e \<Rightarrow> Inl e \<in> set rs)"

definition transformTransactions ::
  "('w, 'act, 'nact, 'sd) env \<Rightarrow> 'w \<Rightarrow> 'act Transaction list
     \<Rightarrow> error + 'nact NearTransaction list \<Rightarrow> bool" where
  "transformTransactions env w transactions r =
     (case account env w of
        None \<Rightarrow> r = Inl TypeError
      | Some a \<Rightarrow>
          (case getPublicKey env a (acc_accountId a) (conn_networkId a) w of
             Inl e \<Rightarrow> r = Inl e
           | Inr localKey \<Rightarrow>
               promise_all (map (assemble env a localKey w) (enumerate 0 transactions)) r))"

subsection \<open>The wallet's methods\<close>

definition signIn ::
  "('w, 'act, 'nact, 'sd) env \<Rightarrow> WalletOptions \<Rightarrow> SignInParams \<Rightarrow> ('w, 'nact) state
     \<Rightarrow> (error + Account list) \<times> ('w, 'nact) state" where
  "signIn env opts p s =
     (case getAccounts env opts (world s) of
        Inl e \<Rightarrow> (Inl e, s)
      | Inr existingAccounts \<Rightarrow>
          if length existingAccounts \<noteq> 0 then (Inr existingAccounts, s)
          else
            (let s1 = emit (RequestSignIn p) s;
                 (r, w') = requestSignIn env p (world s1);
                 s2 = s1\<lparr>world := w'\<rparr> in
             case r of
               Inl e \<Rightarrow> (Inl e, s2)
             | Inr _ \<Rightarrow> (getAccounts env opts (world s2), s2)))"

definition signOut ::
  "('w, 'act, 'nact, 'sd) env \<Rightarrow> ('w, 'nact) state \<Rightarrow> (error + unit) \<times> ('w, 'nact) state" where
  "signOut env s =
     (if isSignedIn env (world s)
      then (let s1 = emit SignOut s in (Inr (), s1\<lparr>world := wallet_signOut env (world s1)\<rparr>))
      else (Inr (), s))"

definition verifyOwner ::
  "WalletOptions \<Rightarrow> ('w, 'nact) state \<Rightarrow> (error + unit) \<times> ('w, 'nact) state" where
  "verifyOwner opts s = (Inl (Error (''Method not supported by '' @ metadata_name opts)), s)"

text \<open>\<open>JSON.stringify\<close> of an array of numbers between 0 and 255.\<close>

fun decimal :: "nat \<Rightarrow> string" where
  "decimal n =
     (if n < 10 then [''0123456789'' ! n]
      else decimal (n div 10) @ [''0123456789'' ! (n mod 10)])"

fun join_commas :: "string list \<Rightarrow> string" where
  "join_commas [] = []"
| "join_commas [x] = x"
| "join_commas (x # y # ys) = x @ '','' @ join_commas (y # ys)"

definition JSON_stringify :: "8 word list \<Rightarrow> string" where
  "JSON_stringify bytes = ''['' @ join_commas (map (\<lambda>b. decimal (unat b)) bytes) @ '']''"

definition relay_request :: "8 word list \<Rightarrow> RequestInit" where
  "relay_request bytes =
     \<lparr>http_method = ''POST'', mode = ''cors'', body = JSON_stringify bytes,
      headers = [(''Content-Type'', ''application/json'')]\<rparr>"

definition signAndSendTransaction ::
  "('w, 'act, 'nact, 'sd) env \<Rightarrow> WalletOptions \<Rightarrow> 'act Transaction \<Rightarrow> ('w, 'nact) state
     \<Rightarrow> (error + unit) \<times> ('w, 'nact) state" where
  "signAndSendTransaction env opts t s =
     (case account env (world s) of
        None \<Rightarrow> (Inl TypeError, s)
      | Some a \<Rightarrow>
          (let args = \<lparr>sd_actions = map (createAction env) (actions t),
                       blockHeightTtl = 60, sd_receiverId = receiverId t\<rparr>;
               s1 = emit (SignedDelegateCall a args) s in
           case signedDelegate env a args (world s1) of
             Inl e \<Rightarrow> (Inl e, s1)
           | Inr sd \<Rightarrow>
               (let init = relay_request (encodeSignedDelegate env sd);
                    s2 = emit (FetchCall (relayerUrl opts) init) s1;
                    (r, w') = fetch env (relayerUrl opts) init (world s2);
                    s3 = s2\<lparr>world := w'\<rparr> in
                case r of
                  Inl e \<Rightarrow> (Inl e, s3)
                | Inr _ \<Rightarrow> (Inr (), s3))))"




declare decimal.simps [simp del]

subsection \<open>A concrete environment\<close>

text \<open>
  A small world for evaluating the definitions: the signed-in account id (empty when
  signed out) and what the signer answers for it. Lookups for the receiver
  \<open>nokey.near\<close> find no access key; every other receiver resolves to one key with
  nonce 5.
\<close>

type_synonym ex_world = "string \<times> (error + public_key option)"

definition ex_account :: "string \<Rightarrow> ConnectedAccount" where
  "ex_account aid = \<lparr>acc_accountId = aid, conn_networkId = ''testnet''\<rparr>"

definition ex_key :: AccessKeyInfoView where
  "ex_key = \<lparr>public_key = ''ed25519:abc'',
             access_key = \<lparr>nonce = 5, permission = FullAccess\<rparr>\<rparr>"

definition ex_env :: "(ex_world, string, string, string) env" where
  "ex_env =
     \<lparr>getAccountId = fst,
      account = (\<lambda>w. Some (ex_account (fst w))),
      isSignedIn = (\<lambda>w. fst w \<noteq> []),
      wallet_signOut = (\<lambda>w. ([], Inr None)),
      requestSignIn = (\<lambda>p w. (Inr (), (''alice.near'', Inr (Some (PublicKey ''ed25519:abc''))))),
      getPublicKey = (\<lambda>a aid nid w. snd w),
      accessKeyForTransaction =
        (\<lambda>a r acts lk w. if r = ''nokey.near'' then Inr None else Inr (Some ex_key)),
      block_final = (\<lambda>a w. Inr ''blockhash''),
      signedDelegate =
        (\<lambda>a args w. if sd_receiverId args = ''nokey.near'' then Inl (Error ''no key'')
                     else Inr (sd_receiverId args)),
      createAction = (\<lambda>a. CHR ''#'' # a),
      PublicKey_from = (\<lambda>k. Inr (PublicKey k)),
      base_decode = (\<lambda>h. Inr [1, 2, 3]),
      encodeSignedDelegate = (\<lambda>sd. [7, 60, 255]),
      fetch = (\<lambda>url init w. (Inr \<lparr>status = 200, response_body = ''ok''\<rparr>, w))\<rparr>"

text \<open>The same environment with a relay that answers 500, and with no network.\<close>

definition ex_rejecting_relay :: "(ex_world, string, string, string) env" where
  "ex_rejecting_relay =
     ex_env\<lparr>fetch := (\<lambda>url init w. (Inr \<lparr>status = 500, response_body = ''rejected''\<rparr>, w))\<rparr>"

definition ex_offline :: "(ex_world, string, string, string) env" where
  "ex_offline = ex_env\<lparr>fetch := (\<lambda>url init w. (Inl TypeError, w))\<rparr>"

text \<open>The same environment with lookups that resolve to a key whose nonce is \<open>2 ^ 53 - 1\<close>.\<close>

definition ex_big_key :: AccessKeyInfoView where
  "ex_big_key = \<lparr>public_key = ''ed25519:abc'',
                 access_key = \<lparr>nonce = 9007199254740991, permission = FullAccess\<rparr>\<rparr>"

definition ex_big_nonce :: "(ex_world, string, string, string) env" where
  "ex_big_nonce = ex_env\<lparr>accessKeyForTransaction := (\<lambda>a r acts lk w. Inr (Some ex_big_key))\<rparr>"

definition ex_opts :: WalletOptions where
  "ex_opts = \<lparr>metadata_name = ''FastAuthWallet'', networkId = ''testnet'',
              relayerUrl = ''https://relay.example''\<rparr>"

definition ex_params :: FastAuthWalletParams where
  "ex_params = \<lparr>p_walletUrl = None, p_iconUrl = None, p_deprecated = None,
                p_successUrl = None, p_failureUrl = None,
                p_relayerUrl = Some ''https://relay.example''\<rparr>"

definition w_signed_in :: ex_world where
  "w_signed_in = (''alice.near'', Inr (Some (PublicKey ''ed25519:abc'')))"

definition w_signed_out :: ex_world where
  "w_signed_out = ([], Inr None)"

definition w_no_key :: ex_world where
  "w_no_key = (''alice.near'', Inr None)"

definition w_bad_store :: ex_world where
  "w_bad_store = (''alice.near'', Inl (Error ''Unknown curve''))"

definition s_signed_in :: "(ex_world, string) state" where
  "s_signed_in = \<lparr>world = w_signed_in, trace = []\<rparr>"

definition s_signed_out :: "(ex_world, string) state" where
  "s_signed_out = \<lparr>world = w_signed_out, trace = []\<rparr>"

definition ex_sign_in :: SignInParams where
  "ex_sign_in = \<lparr>contractId = ''app.near'', methodNames = None, si_successUrl = None,
                 si_failureUrl = None, email = Some ''alice@example.org'',
                 si_accountId = Some ''alice.near'', isRecovery = Some False\<rparr>"

definition tx_to :: "string \<Rightarrow> string Transaction" where
  "tx_to r = \<lparr>receiverId = r, signerId = None, actions = [''Transfer'']\<rparr>"



definition ex_assembled :: "int \<Rightarrow> string \<Rightarrow> string NearTransaction" where
  "ex_assembled k r =
     \<lparr>tx_signerId = ''alice.near'', tx_publicKey = PublicKey ''ed25519:abc'',
      tx_receiverId = r, tx_nonce = k, tx_actions = [''#Transfer''],
      tx_blockHash = [1, 2, 3]\<rparr>"

section \<open>Properties\<close>

subsection \<open>\<open>verifyOwner\<close>\<close>

text \<open>
  C8. In every session state \<open>verifyOwner\<close> fails with the error
  "Method not supported by <name>", where the name is the wallet's \<open>metadata.name\<close>; it
  never succeeds and leaves the state as it is. With the metadata of the module built by
  \<open>setupFastAuthWallet\<close> the message names \<open>FastAuthWallet\<close>.
\<close>

theorem verifyOwner_unsupported:
  "fst (verifyOwner opts s) = Inl (Error (''Method not supported by '' @ metadata_name opts))
   \<and> (\<forall>u. fst (verifyOwner opts s) \<noteq> Inr u)
   \<and> snd (verifyOwner opts s) = s
   \<and> (\<forall>m. setupFastAuthWallet icon p network_id = Inr m \<longrightarrow>
          fst (verifyOwner (opts\<lparr>metadata_name := name (metadata m)\<rparr>) s)
            = Inl (Error ''Method not supported by FastAuthWallet''))"
  by (auto simp: verifyOwner_def setupFastAuthWallet_def split: sum.splits)

theorem verifyOwner_unsupported_witness:
  "setupFastAuthWallet ''icon'' ex_params ''testnet'' \<noteq> Inl (Error ''Invalid wallet url'')
   \<and> fst (verifyOwner ex_opts s_signed_in) = Inl (Error ''Method not supported by FastAuthWallet'')
   \<and> fst (verifyOwner ex_opts s_signed_out) = Inl (Error ''Method not supported by FastAuthWallet'')"
  using verifyOwner_unsupported [of ex_opts s_signed_in "''icon''" ex_params "''testnet''"]
    verifyOwner_unsupported [of ex_opts s_signed_out "''icon''" ex_params "''testnet''"]
  by (simp add: ex_opts_def setupFastAuthWallet_def resolveWalletUrl_def ex_params_def)

subsection \<open>\<open>resolveWalletUrl\<close>\<close>

text \<open>
  C9, as claimed, fails: with a wallet URL configured, resolution succeeds for a network
  identifier that is neither \<open>mainnet\<close> nor \<open>testnet\<close>.
\<close>

theorem resolveWalletUrl_override_counterexample:
  "''localnet'' \<notin> {''mainnet'', ''testnet''}
   \<and> resolveWalletUrl ''localnet'' (Some ''https://wallet.example'')
       = Inr ''https://wallet.example''"
  by (simp add: resolveWalletUrl_def)

text \<open>
  C9, amended. When no wallet URL is configured (the parameter is missing or empty),
  resolution fails with "Invalid wallet url" for every network identifier outside
  \<open>mainnet\<close> and \<open>testnet\<close>: the module factory fails before it returns a module, and so
  does the preparation of \<open>init\<close>, before any wallet state is set up. A configured,
  non-empty wallet URL is returned as it is for every network identifier.
\<close>

theorem resolveWalletUrl_unknown_network:
  "(network_id \<notin> {''mainnet'', ''testnet''} \<and> \<not> truthy url \<longrightarrow>
      resolveWalletUrl network_id url = Inl (Error ''Invalid wallet url'')
      \<and> setupFastAuthWallet icon (p\<lparr>p_walletUrl := url\<rparr>) network_id
          = Inl (Error ''Invalid wallet url'')
      \<and> init_params (p\<lparr>p_walletUrl := url\<rparr>) network_id = Inl (Error ''Invalid wallet url''))
   \<and> (truthy url \<longrightarrow> resolveWalletUrl network_id url = Inr (the url))"
  by (simp add: resolveWalletUrl_def setupFastAuthWallet_def init_params_def)

theorem resolveWalletUrl_unknown_network_witness:
  "''localnet'' \<notin> {''mainnet'', ''testnet''} \<and> \<not> truthy None
   \<and> resolveWalletUrl ''localnet'' None = Inl (Error ''Invalid wallet url'')
   \<and> setupFastAuthWallet ''icon'' ex_params ''localnet'' = Inl (Error ''Invalid wallet url'')
   \<and> truthy (Some ''https://wallet.example'')
   \<and> resolveWalletUrl ''localnet'' (Some ''https://wallet.example'')
       = Inr ''https://wallet.example''"
  using resolveWalletUrl_unknown_network [of "''localnet''" None "''icon''" ex_params]
    resolveWalletUrl_unknown_network
      [of "''localnet''" "Some ''https://wallet.example''" "''icon''" ex_params]
  by (simp add: ex_params_def)

subsection \<open>\<open>getAccounts\<close>\<close>

text \<open>
  C6, as claimed, fails. With an account signed in and a signer that has no key for it
  (\<open>getPublicKey\<close> resolves to \<open>null\<close>), \<open>getAccounts\<close> returns one record whose
  \<open>publicKey\<close> is the empty string, not the empty sequence; and when the signer's lookup
  itself rejects, \<open>getAccounts\<close> rejects with the same reason.
\<close>

theorem getAccounts_empty_key_counterexample:
  "getAccountId ex_env w_no_key = ''alice.near''
   \<and> getPublicKey ex_env (ex_account ''alice.near'') ''alice.near'' ''testnet'' w_no_key = Inr None
   \<and> getAccounts ex_env ex_opts w_no_key = Inr [\<lparr>accountId = ''alice.near'', publicKey = []\<rparr>]
   \<and> getAccounts ex_env ex_opts w_no_key \<noteq> Inr []
   \<and> getAccounts ex_env ex_opts w_bad_store = Inl (Error ''Unknown curve'')"
  by (simp add: getAccounts_def ex_env_def ex_opts_def w_no_key_def w_bad_store_def ex_account_def)

text \<open>
  C6, amended. When no account is signed in (the account id is empty or there is no
  account object), \<open>getAccounts\<close> returns the empty sequence and does not throw. Otherwise,
  when the signer's public-key lookup resolves, it returns exactly one record: the
  signed-in account id with the key's string form, or with the empty string when the
  signer has no key; it throws only when that lookup throws, with the lookup's error.
\<close>

theorem getAccounts_result:
  "(getAccountId env w = [] \<or> account env w = None \<longrightarrow> getAccounts env opts w = Inr [])
   \<and> (getAccountId env w \<noteq> [] \<and> account env w = Some a \<longrightarrow>
        (\<forall>pk. getPublicKey env a (acc_accountId a) (networkId opts) w = Inr pk \<longrightarrow>
           getAccounts env opts w =
             Inr [\<lparr>accountId = getAccountId env w,
                   publicKey = (case pk of None \<Rightarrow> [] | Some k \<Rightarrow> toString k)\<rparr>])
        \<and> (\<forall>e. getPublicKey env a (acc_accountId a) (networkId opts) w = Inl e \<longrightarrow>
           getAccounts env opts w = Inl e))"
  by (auto simp: getAccounts_def Let_def split: option.splits)

theorem getAccounts_result_witness:
  "getAccounts ex_env ex_opts w_signed_out = Inr []
   \<and> getAccounts ex_env ex_opts w_signed_in
       = Inr [\<lparr>accountId = ''alice.near'', publicKey = ''ed25519:abc''\<rparr>]
   \<and> getAccounts ex_env ex_opts w_no_key = Inr [\<lparr>accountId = ''alice.near'', publicKey = []\<rparr>]
   \<and> getAccounts ex_env ex_opts w_bad_store = Inl (Error ''Unknown curve'')"
proof -
  have out: "getAccountId ex_env w_signed_out = []"
    by (simp add: ex_env_def w_signed_out_def)
  have acc: "getAccountId ex_env w \<noteq> [] \<and> account ex_env w = Some (ex_account ''alice.near'')"
    if "fst w = ''alice.near''" for w
    using that by (simp add: ex_env_def)
  have pk: "getPublicKey ex_env (ex_account ''alice.near'')
              (acc_accountId (ex_account ''alice.near'')) (networkId ex_opts) w = snd w" for w
    by (simp add: ex_env_def)
  show ?thesis
    using getAccounts_result [of ex_env w_signed_out ex_opts "ex_account ''alice.near''"] out
      getAccounts_result [of ex_env w_signed_in ex_opts "ex_account ''alice.near''"]
      getAccounts_result [of ex_env w_no_key ex_opts "ex_account ''alice.near''"]
      getAccounts_result [of ex_env w_bad_store ex_opts "ex_account ''alice.near''"]
      acc [of w_signed_in] acc [of w_no_key] acc [of w_bad_store]
      pk [of w_signed_in] pk [of w_no_key] pk [of w_bad_store]
    by (simp add: w_signed_in_def w_no_key_def w_bad_store_def ex_env_def)
qed

subsection \<open>\<open>signIn\<close>\<close>

text \<open>
  C7. When \<open>getAccounts\<close> yields a non-empty account list, \<open>signIn\<close> returns that list and
  leaves the session as it is: nothing is added to the trace, so \<open>requestSignIn\<close> is not
  called, and a second \<open>signIn\<close> gives the same result.
\<close>

theorem signIn_idempotent:
  assumes "getAccounts env opts (world s) = Inr accs" and "accs \<noteq> []"
  shows "signIn env opts p s = (Inr accs, s)
         \<and> trace (snd (signIn env opts p s)) = trace s
         \<and> signIn env opts p (snd (signIn env opts p s)) = signIn env opts p s"
  using assms by (simp add: signIn_def)

theorem signIn_idempotent_witness:
  "getAccounts ex_env ex_opts (world s_signed_in)
     = Inr [\<lparr>accountId = ''alice.near'', publicKey = ''ed25519:abc''\<rparr>]
   \<and> signIn ex_env ex_opts ex_sign_in s_signed_in
     = (Inr [\<lparr>accountId = ''alice.near'', publicKey = ''ed25519:abc''\<rparr>], s_signed_in)
   \<and> trace (snd (signIn ex_env ex_opts ex_sign_in s_signed_in)) = []
   \<and> trace (snd (signIn ex_env ex_opts ex_sign_in s_signed_out)) = [RequestSignIn ex_sign_in]"
proof -
  have g: "getAccounts ex_env ex_opts (world s_signed_in)
     = Inr [\<lparr>accountId = ''alice.near'', publicKey = ''ed25519:abc''\<rparr>]"
    by (simp add: getAccounts_def ex_env_def ex_opts_def s_signed_in_def w_signed_in_def)
  have o: "trace (snd (signIn ex_env ex_opts ex_sign_in s_signed_out))
             = [RequestSignIn ex_sign_in]"
    by (simp add: signIn_def getAccounts_def ex_env_def ex_opts_def s_signed_out_def
        w_signed_out_def emit_def)
  from signIn_idempotent [OF g, of ex_sign_in] o g show ?thesis
    by (simp add: s_signed_in_def)
qed

subsection \<open>\<open>signAndSendTransaction\<close>\<close>

lemma JSON_stringify_example: "JSON_stringify [7, 60, 255] = ''[7,60,255]''"
  by (simp add: JSON_stringify_def decimal.simps)



text \<open>
  C4. On every input, whatever \<open>signAndSendTransaction\<close> adds to the trace is a
  \<open>signedDelegate\<close> call on the wallet's current account, with the given actions (through
  \<open>createAction\<close>), the given receiver and \<open>blockHeightTtl = 60\<close>, or a \<open>fetch\<close> to the
  relay URL: there is no other call. When the account exists and the delegate is signed,
  exactly these two calls are made, in this order, and the request carries the encoding of
  that delegate.
\<close>

theorem signAndSendTransaction_delegated:
  "(\<forall>ev \<in> set (drop (length (trace s)) (trace (snd (signAndSendTransaction env opts t s)))).
      case ev of
        SignedDelegateCall a args \<Rightarrow>
          account env (world s) = Some a
          \<and> args = \<lparr>sd_actions = map (createAction env) (actions t),
                     blockHeightTtl = 60, sd_receiverId = receiverId t\<rparr>
      | FetchCall url init \<Rightarrow> url = relayerUrl opts
      | _ \<Rightarrow> False)
   \<and> (\<forall>a sd. account env (world s) = Some a
         \<and> signedDelegate env a \<lparr>sd_actions = map (createAction env) (actions t),
                                  blockHeightTtl = 60, sd_receiverId = receiverId t\<rparr> (world s)
             = Inr sd \<longrightarrow>
         trace (snd (signAndSendTransaction env opts t s)) =
           trace s @ [SignedDelegateCall a \<lparr>sd_actions = map (createAction env) (actions t),
                                             blockHeightTtl = 60, sd_receiverId = receiverId t\<rparr>,
                      FetchCall (relayerUrl opts)
                        (relay_request (encodeSignedDelegate env sd))])"
  by (auto simp: signAndSendTransaction_def emit_def Let_def
      split: option.splits sum.splits prod.splits)

theorem signAndSendTransaction_delegated_witness:
  "trace (snd (signAndSendTransaction ex_env ex_opts (tx_to ''bob.near'') s_signed_in)) =
     [SignedDelegateCall (ex_account ''alice.near'')
        \<lparr>sd_actions = [''#Transfer''], blockHeightTtl = 60, sd_receiverId = ''bob.near''\<rparr>,
      FetchCall ''https://relay.example'' (relay_request [7, 60, 255])]"
proof -
  have a: "account ex_env (world s_signed_in) = Some (ex_account ''alice.near'')"
    by (simp add: ex_env_def s_signed_in_def w_signed_in_def)
  have d: "signedDelegate ex_env (ex_account ''alice.near'')
             \<lparr>sd_actions = map (createAction ex_env) (actions (tx_to ''bob.near'')),
              blockHeightTtl = 60, sd_receiverId = receiverId (tx_to ''bob.near'')\<rparr>
             (world s_signed_in) = Inr ''bob.near''"
    by (simp add: ex_env_def tx_to_def)
  from signAndSendTransaction_delegated [of s_signed_in ex_env ex_opts "tx_to ''bob.near''"] a d
  have "trace (snd (signAndSendTransaction ex_env ex_opts (tx_to ''bob.near'') s_signed_in)) =
           trace s_signed_in @
             [SignedDelegateCall (ex_account ''alice.near'')
                \<lparr>sd_actions = map (createAction ex_env) (actions (tx_to ''bob.near'')),
                 blockHeightTtl = 60, sd_receiverId = receiverId (tx_to ''bob.near'')\<rparr>,
              FetchCall (relayerUrl ex_opts) (relay_request (encodeSignedDelegate ex_env ''bob.near''))]"
    by blast
  then show ?thesis
    by (simp add: s_signed_in_def ex_env_def ex_opts_def tx_to_def)
qed

text \<open>
  C5. Once the delegate is signed, the last call is a \<open>fetch\<close> of the relay URL with method
  POST, mode cors, the header \<open>Content-Type: application/json\<close> and, as body, the JSON
  array of the bytes of \<open>encodeSignedDelegate\<close>. Whatever response \<open>fetch\<close> resolves to,
  the method returns normally; it fails exactly when \<open>fetch\<close> itself rejects.
\<close>

theorem relay_request_fire_and_forget:
  assumes "account env (world s) = Some a"
    and "signedDelegate env a \<lparr>sd_actions = map (createAction env) (actions t),
                               blockHeightTtl = 60, sd_receiverId = receiverId t\<rparr> (world s)
           = Inr sd"
  shows "last (trace (snd (signAndSendTransaction env opts t s))) =
           FetchCall (relayerUrl opts)
             \<lparr>http_method = ''POST'', mode = ''cors'',
              body = JSON_stringify (encodeSignedDelegate env sd),
              headers = [(''Content-Type'', ''application/json'')]\<rparr>
         \<and> (\<forall>resp w'. fetch env (relayerUrl opts) (relay_request (encodeSignedDelegate env sd))
                         (world s) = (Inr resp, w') \<longrightarrow>
               fst (signAndSendTransaction env opts t s) = Inr ())
         \<and> (\<forall>e w'. fetch env (relayerUrl opts) (relay_request (encodeSignedDelegate env sd))
                      (world s) = (Inl e, w') \<longrightarrow>
               fst (signAndSendTransaction env opts t s) = Inl e)"
  using assms
  by (auto simp: signAndSendTransaction_def emit_def Let_def relay_request_def
      split: option.splits sum.splits prod.splits)

theorem relay_request_fire_and_forget_witness:
  "last (trace (snd (signAndSendTransaction ex_rejecting_relay ex_opts (tx_to ''bob.near'')
                       s_signed_in))) =
     FetchCall ''https://relay.example''
       \<lparr>http_method = ''POST'', mode = ''cors'', body = ''[7,60,255]'',
        headers = [(''Content-Type'', ''application/json'')]\<rparr>
   \<and> fetch ex_rejecting_relay ''https://relay.example'' (relay_request [7, 60, 255]) w_signed_in
       = (Inr \<lparr>status = 500, response_body = ''rejected''\<rparr>, w_signed_in)
   \<and> fst (signAndSendTransaction ex_rejecting_relay ex_opts (tx_to ''bob.near'') s_signed_in)
       = Inr ()
   \<and> fst (signAndSendTransaction ex_env ex_opts (tx_to ''bob.near'') s_signed_in) = Inr ()
   \<and> fst (signAndSendTransaction ex_offline ex_opts (tx_to ''bob.near'') s_signed_in)
       = Inl TypeError"
proof -
  let ?t = "tx_to ''bob.near''"
  let ?args = "\<lparr>sd_actions = map (createAction ex_env) (actions ?t),
                blockHeightTtl = 60, sd_receiverId = receiverId ?t\<rparr>"
  have a: "account env (world s_signed_in) = Some (ex_account ''alice.near'')"
    and d: "signedDelegate env (ex_account ''alice.near'')
              \<lparr>sd_actions = map (createAction env) (actions ?t),
               blockHeightTtl = 60, sd_receiverId = receiverId ?t\<rparr> (world s_signed_in)
              = Inr ''bob.near''"
    and enc: "encodeSignedDelegate env ''bob.near'' = [7, 60, 255]"
    if "env \<in> {ex_env, ex_rejecting_relay, ex_offline}" for env
    using that
    by (auto simp: ex_rejecting_relay_def ex_offline_def ex_env_def s_signed_in_def
        w_signed_in_def tx_to_def)
  have f1: "fetch ex_rejecting_relay ''https://relay.example'' (relay_request [7, 60, 255])
              w_signed_in = (Inr \<lparr>status = 500, response_body = ''rejected''\<rparr>, w_signed_in)"
    and f2: "fetch ex_env ''https://relay.example'' (relay_request [7, 60, 255])
              w_signed_in = (Inr \<lparr>status = 200, response_body = ''ok''\<rparr>, w_signed_in)"
    and f3: "fetch ex_offline ''https://relay.example'' (relay_request [7, 60, 255])
              w_signed_in = (Inl TypeError, w_signed_in)"
    by (simp_all add: ex_rejecting_relay_def ex_offline_def ex_env_def)
  have w: "world s_signed_in = w_signed_in" and u: "relayerUrl ex_opts = ''https://relay.example''"
    by (simp_all add: s_signed_in_def ex_opts_def)
  show ?thesis
    using relay_request_fire_and_forget [OF a d, of ex_rejecting_relay ex_opts]
      relay_request_fire_and_forget [OF a d, of ex_env ex_opts]
      relay_request_fire_and_forget [OF a d, of ex_offline ex_opts]
      f1 f2 f3
    by (simp add: enc w u JSON_stringify_example)
qed

text \<open>
  C10. Two calls of \<open>signAndSendTransaction\<close> with the same receiver and actions in the
  same session give the same result, the same calls and the same final state, whatever
  their \<open>signerId\<close>; every \<open>signedDelegate\<close> call is made on the account the wallet
  currently holds.
\<close>

theorem signAndSendTransaction_ignores_signerId:
  "(receiverId t1 = receiverId t2 \<and> actions t1 = actions t2 \<longrightarrow>
      signAndSendTransaction env opts t1 s = signAndSendTransaction env opts t2 s)
   \<and> (\<forall>a args. SignedDelegateCall a args
          \<in> set (drop (length (trace s)) (trace (snd (signAndSendTransaction env opts t1 s))))
        \<longrightarrow> account env (world s) = Some a)"
  by (auto simp: signAndSendTransaction_def emit_def Let_def
      split: option.splits sum.splits prod.splits)

theorem signAndSendTransaction_ignores_signerId_witness:
  "signAndSendTransaction ex_env ex_opts
     \<lparr>receiverId = ''bob.near'', signerId = Some ''mallory.near'', actions = [''Transfer'']\<rparr>
     s_signed_in
   = signAndSendTransaction ex_env ex_opts
     \<lparr>receiverId = ''bob.near'', signerId = None, actions = [''Transfer'']\<rparr> s_signed_in
   \<and> SignedDelegateCall (ex_account ''alice.near'')
        \<lparr>sd_actions = [''#Transfer''], blockHeightTtl = 60, sd_receiverId = ''bob.near''\<rparr>
      \<in> set (trace (snd (signAndSendTransaction ex_env ex_opts
          \<lparr>receiverId = ''bob.near'', signerId = Some ''mallory.near'',
           actions = [''Transfer'']\<rparr> s_signed_in)))
   \<and> account ex_env (world s_signed_in) = Some (ex_account ''alice.near'')"
proof -
  let ?t1 = "\<lparr>receiverId = ''bob.near'', signerId = Some ''mallory.near'',
              actions = [''Transfer'']\<rparr>"
  let ?t2 = "\<lparr>receiverId = ''bob.near'', signerId = None, actions = [''Transfer'']\<rparr>"
  have m: "SignedDelegateCall (ex_account ''alice.near'')
        \<lparr>sd_actions = [''#Transfer''], blockHeightTtl = 60, sd_receiverId = ''bob.near''\<rparr>
      \<in> set (drop (length (trace s_signed_in))
               (trace (snd (signAndSendTransaction ex_env ex_opts ?t1 s_signed_in))))"
    by (simp add: signAndSendTransaction_def emit_def ex_env_def s_signed_in_def w_signed_in_def)
  from signAndSendTransaction_ignores_signerId [of ?t1 ?t2 ex_env ex_opts s_signed_in] m
  show ?thesis
    by (auto simp: s_signed_in_def w_signed_in_def ex_env_def)
qed

subsection \<open>\<open>signAndSendTransactions\<close>\<close>







subsection \<open>\<open>transformTransactions\<close>\<close>

text \<open>Rounding to a double.\<close>

lemma ulp_small: "m < 2 ^ 53 \<Longrightarrow> ulp m = 1"
  by (simp add: ulp.simps)

lemma ulp_2_53: "ulp 9007199254740992 = 2"
  by (simp add: ulp.simps [of 9007199254740992] ulp.simps [of 4503599627370496])

lemma ulp_2_53_1: "ulp 9007199254740993 = 2"
  by (simp add: ulp.simps [of 9007199254740993] ulp.simps [of 4503599627370496])

text \<open>Up to \<open>2 ^ 53\<close> in magnitude, rounding changes nothing and the addition is exact.\<close>

lemma float64_exact:
  assumes "\<bar>x\<bar> \<le> 2 ^ 53"
  shows "float64 x = x"
proof (cases "\<bar>x\<bar> < 2 ^ 53")
  case True
  then have "ulp \<bar>x\<bar> = 1" by (rule ulp_small)
  then show ?thesis
    by (simp add: float64_def Let_def mult_sgn_abs)
next
  case False
  with assms have m: "\<bar>x\<bar> = 2 ^ 53" by simp
  then have "float64 x = sgn x * 2 ^ 53"
    by (simp add: float64_def Let_def ulp_2_53)
  with m show ?thesis
    by (metis mult_sgn_abs)
qed

lemma js_add_exact: "\<bar>a + b\<bar> \<le> 2 ^ 53 \<Longrightarrow> js_add a b = a + b"
  by (simp add: js_add_def float64_exact)

lemma js_add_rounds:
  "js_add (js_add 9007199254740991 0) 1 = 9007199254740992"
  "js_add (js_add 9007199254740991 1) 1 = 9007199254740992"
  "js_add (js_add 9007199254740991 2) 1 = 9007199254740992"
  by (simp_all add: js_add_def float64_def Let_def ulp_2_53 ulp_2_53_1 ulp_small)

text \<open>The callback for one transaction, by the outcome of its access-key lookup.\<close>

lemma assemble_found:
  assumes "accessKeyForTransaction env a (receiverId t) (map (createAction env) (actions t))
             localKey w = Inr (Some k)"
    and "assemble env a localKey w (i, t) = Inr tx"
  shows "tx_nonce tx = js_add (js_add (nonce (access_key k)) (int i)) 1
         \<and> tx_receiverId tx = receiverId t"
  using assms by (auto simp: assemble_def Let_def split: sum.splits)

lemma assemble_not_found:
  assumes "accessKeyForTransaction env a (receiverId t) (map (createAction env) (actions t))
             localKey w = Inr None"
  shows "assemble env a localKey w (i, t) =
           Inl (Error (''Failed to find matching key for transaction sent to '' @ receiverId t))"
  using assms by (simp add: assemble_def Let_def)

lemma assemble_complete:
  assumes "accessKeyForTransaction env a (receiverId t) (map (createAction env) (actions t))
             localKey w = Inr (Some k)"
    and "block_final env a w = Inr hash"
    and "PublicKey_from env (public_key k) = Inr pk"
    and "base_decode env hash = Inr bh"
  shows "assemble env a localKey w (i, t) =
           Inr \<lparr>tx_signerId = acc_accountId a, tx_publicKey = pk,
                tx_receiverId = receiverId t,
                tx_nonce = js_add (js_add (nonce (access_key k)) (int i)) 1,
                tx_actions = map (createAction env) (actions t), tx_blockHash = bh\<rparr>"
  using assms by (simp add: assemble_def Let_def)

lemma enumerate_member:
  assumes "p \<in> set (enumerate 0 xs)"
  shows "snd p \<in> set xs"
proof -
  from assms have "fst p < length xs" and "xs ! fst p = snd p"
    by (simp_all add: in_set_enumerate_eq)
  then show ?thesis
    using nth_mem [of "fst p" xs] by simp
qed

text \<open>
  C1, as claimed, fails. With an access key whose nonce is \<open>n = 2 ^ 53 - 1\<close>, a batch of
  three transactions is assembled with the nonce \<open>2 ^ 53\<close> three times: \<open>n + 1 + 1\<close> and
  \<open>n + 2 + 1\<close> are not doubles and both additions round to \<open>2 ^ 53\<close>. The batch with the
  nonces \<open>n + 1\<close>, \<open>n + 2\<close>, \<open>n + 3\<close> is not what the method returns.
\<close>

theorem transformTransactions_nonces_counterexample:
  "nonce (access_key ex_big_key) = 9007199254740991
   \<and> transformTransactions ex_big_nonce w_signed_in
       [tx_to ''a.near'', tx_to ''b.near'', tx_to ''c.near'']
       (Inr [ex_assembled 9007199254740992 ''a.near'', ex_assembled 9007199254740992 ''b.near'',
             ex_assembled 9007199254740992 ''c.near''])
   \<and> \<not> transformTransactions ex_big_nonce w_signed_in
       [tx_to ''a.near'', tx_to ''b.near'', tx_to ''c.near'']
       (Inr [ex_assembled 9007199254740992 ''a.near'', ex_assembled 9007199254740993 ''b.near'',
             ex_assembled 9007199254740994 ''c.near''])"
proof -
  have one: "assemble ex_big_nonce (ex_account ''alice.near'') lk w (i, tx_to r) =
      Inr (ex_assembled (js_add (js_add 9007199254740991 (int i)) 1) r)" for lk w i r
    by (simp add: assemble_def ex_big_nonce_def ex_env_def tx_to_def ex_big_key_def
        ex_account_def ex_assembled_def)
  have acc: "account ex_big_nonce w_signed_in = Some (ex_account ''alice.near'')"
    and pk: "getPublicKey ex_big_nonce (ex_account ''alice.near'')
               (acc_accountId (ex_account ''alice.near''))
               (conn_networkId (ex_account ''alice.near'')) w_signed_in
             = Inr (Some (PublicKey ''ed25519:abc''))"
    by (simp_all add: ex_big_nonce_def ex_env_def w_signed_in_def)
  have neq: "ex_assembled 9007199254740992 r \<noteq> ex_assembled 9007199254740993 r" for r
    by (simp add: ex_assembled_def)
  show ?thesis
    by (simp add: transformTransactions_def promise_all_def acc pk one js_add_rounds neq
        ex_big_key_def)
qed

text \<open>
  C1, amended. Let the wallet hold an account whose signer answers, and let the access-key
  lookup of every transaction of the batch resolve to the same access key, with a nonce
  \<open>n\<close> such that \<open>- 2 ^ 53 \<le> n\<close> and \<open>n + N \<le> 2 ^ 53\<close> for the \<open>N\<close> transactions of the
  batch. Then every batch that \<open>transformTransactions\<close> assembles has one transaction per
  input, in input order, and the \<open>i\<close>-th carries nonce \<open>n + i + 1\<close>. When the block query
  and the two decodings succeed as well, the batch is assembled and the method cannot
  reject.
\<close>

theorem transformTransactions_nonces:
  assumes acct: "account env w = Some a"
    and lk: "getPublicKey env a (acc_accountId a) (conn_networkId a) w = Inr localKey"
    and keys: "\<forall>t \<in> set transactions.
                 accessKeyForTransaction env a (receiverId t)
                   (map (createAction env) (actions t)) localKey w = Inr (Some accessKey)"
    and n: "nonce (access_key accessKey) = n"
    and lo: "- (2 ^ 53) \<le> n"
    and hi: "n + int (length transactions) \<le> 2 ^ 53"
  shows "(\<forall>out. transformTransactions env w transactions (Inr out) \<longrightarrow>
            map tx_nonce out = map (\<lambda>i. n + int i + 1) [0..<length transactions]
            \<and> map tx_receiverId out = map receiverId transactions)
         \<and> (\<forall>hash pk bh. block_final env a w = Inr hash
               \<and> PublicKey_from env (public_key accessKey) = Inr pk
               \<and> base_decode env hash = Inr bh \<longrightarrow>
             (\<exists>out. transformTransactions env w transactions (Inr out))
             \<and> (\<forall>e. \<not> transformTransactions env w transactions (Inl e)))"
proof (intro conjI allI impI)
  fix out
  assume "transformTransactions env w transactions (Inr out)"
  with acct lk
  have eq: "map (assemble env a localKey w) (enumerate 0 transactions) = map Inr out"
    by (simp add: transformTransactions_def promise_all_def)
  then have len: "length out = length transactions"
    by (metis length_map length_enumerate)
  have each: "tx_nonce (out ! i) = n + int i + 1 \<and> tx_receiverId (out ! i) = receiverId (transactions ! i)"
    if i: "i < length transactions" for i
  proof -
    from eq i len
    have "map (assemble env a localKey w) (enumerate 0 transactions) ! i = map Inr out ! i"
      by simp
    with i len have "assemble env a localKey w (i, transactions ! i) = Inr (out ! i)"
      by (simp add: nth_enumerate_eq)
    moreover from keys i
    have "accessKeyForTransaction env a (receiverId (transactions ! i))
            (map (createAction env) (actions (transactions ! i))) localKey w
          = Inr (Some accessKey)"
      by simp
    ultimately have "tx_nonce (out ! i) = js_add (js_add n (int i)) 1"
      and r: "tx_receiverId (out ! i) = receiverId (transactions ! i)"
      using assemble_found [of env a "transactions ! i" localKey w accessKey i "out ! i"] n
      by simp_all
    moreover from lo hi i have "js_add n (int i) = n + int i"
      by (intro js_add_exact) simp
    moreover from lo hi i have "js_add (n + int i) 1 = n + int i + 1"
      by (intro js_add_exact) simp
    ultimately show ?thesis
      using r by simp
  qed
  show "map tx_nonce out = map (\<lambda>i. n + int i + 1) [0..<length transactions]"
    using each len by (intro nth_equalityI) simp_all
  show "map tx_receiverId out = map receiverId transactions"
    using each len by (intro nth_equalityI) simp_all
next
  fix hash pk bh
  assume ok: "block_final env a w = Inr hash
               \<and> PublicKey_from env (public_key accessKey) = Inr pk
               \<and> base_decode env hash = Inr bh"
  let ?tx = "\<lambda>p. \<lparr>tx_signerId = acc_accountId a, tx_publicKey = pk,
                   tx_receiverId = receiverId (snd p),
                   tx_nonce = js_add (js_add (nonce (access_key accessKey)) (int (fst p))) 1,
                   tx_actions = map (createAction env) (actions (snd p)), tx_blockHash = bh\<rparr>"
  have all: "assemble env a localKey w p = Inr (?tx p)"
    if "p \<in> set (enumerate 0 transactions)" for p
  proof -
    from that have "snd p \<in> set transactions" by (rule enumerate_member)
    with keys have "accessKeyForTransaction env a (receiverId (snd p))
            (map (createAction env) (actions (snd p))) localKey w = Inr (Some accessKey)"
      by simp
    from assemble_complete [OF this, of hash pk bh "fst p"] ok show ?thesis by simp
  qed
  then have eq: "map (assemble env a localKey w) (enumerate 0 transactions)
                  = map Inr (map ?tx (enumerate 0 transactions))"
    by simp
  with acct lk
  have "transformTransactions env w transactions (Inr (map ?tx (enumerate 0 transactions)))"
    by (simp add: transformTransactions_def promise_all_def)
  then show "\<exists>out. transformTransactions env w transactions (Inr out)" ..
  show "\<not> transformTransactions env w transactions (Inl e)" for e
    using acct lk eq by (auto simp: transformTransactions_def promise_all_def)
qed

lemma ex_lookups:
  "account ex_env w_signed_in = Some (ex_account ''alice.near'')"
  "getPublicKey ex_env (ex_account ''alice.near'') (acc_accountId (ex_account ''alice.near''))
     (conn_networkId (ex_account ''alice.near'')) w_signed_in
     = Inr (Some (PublicKey ''ed25519:abc''))"
  "accessKeyForTransaction ex_env a (receiverId (tx_to r))
     (map (createAction ex_env) (actions (tx_to r))) lk w
     = (if r = ''nokey.near'' then Inr None else Inr (Some ex_key))"
  "block_final ex_env a w = Inr ''blockhash''"
  "PublicKey_from ex_env (public_key ex_key) = Inr (PublicKey ''ed25519:abc'')"
  "base_decode ex_env h = Inr [1, 2, 3]"
  by (simp_all add: ex_env_def w_signed_in_def tx_to_def ex_key_def)

lemma ex_assemble:
  "assemble ex_env (ex_account ''alice.near'') lk w (i, tx_to r) =
     (if r = ''nokey.near''
      then Inl (Error (''Failed to find matching key for transaction sent to '' @ r))
      else Inr (ex_assembled (js_add (js_add 5 (int i)) 1) r))"
  by (simp add: assemble_def ex_env_def tx_to_def ex_key_def ex_account_def ex_assembled_def)

theorem transformTransactions_nonces_witness:
  "transformTransactions ex_env w_signed_in
     [tx_to ''a.near'', tx_to ''b.near'', tx_to ''c.near'']
     (Inr [ex_assembled 6 ''a.near'', ex_assembled 7 ''b.near'', ex_assembled 8 ''c.near''])
   \<and> map tx_nonce
        [ex_assembled 6 ''a.near'', ex_assembled 7 ''b.near'', ex_assembled 8 ''c.near'']
       = [6, 7, 8]
   \<and> (\<forall>e. \<not> transformTransactions ex_env w_signed_in
               [tx_to ''a.near'', tx_to ''b.near'', tx_to ''c.near''] (Inl e))"
proof -
  let ?txs = "[tx_to ''a.near'', tx_to ''b.near'', tx_to ''c.near'']"
  let ?out = "[ex_assembled 6 ''a.near'', ex_assembled 7 ''b.near'', ex_assembled 8 ''c.near'']"
  have keys: "\<forall>t \<in> set ?txs.
      accessKeyForTransaction ex_env (ex_account ''alice.near'') (receiverId t)
        (map (createAction ex_env) (actions t)) (Some (PublicKey ''ed25519:abc'')) w_signed_in
      = Inr (Some ex_key)"
    by (simp add: ex_lookups)
  have n: "nonce (access_key ex_key) = 5"
    by (simp add: ex_key_def)
  have lo: "- (2 ^ 53) \<le> (5::int)" and hi: "5 + int (length ?txs) \<le> 2 ^ 53"
    by simp_all
  have run: "transformTransactions ex_env w_signed_in ?txs (Inr ?out)"
    by (simp add: transformTransactions_def promise_all_def ex_lookups ex_assemble
        js_add_exact)
  note inst = transformTransactions_nonces [OF ex_lookups(1) ex_lookups(2) keys n lo hi]
  from inst run have "map tx_nonce ?out = map (\<lambda>i. 5 + int i + 1) [0..<length ?txs]"
    by blast
  moreover from inst ex_lookups(4-6)
  have "\<forall>e. \<not> transformTransactions ex_env w_signed_in ?txs (Inl e)"
    by blast
  ultimately show ?thesis
    using run by (simp add: numeral_3_eq_3)
qed

text \<open>
  C3. If the access-key lookup for a transaction of the batch resolves to \<open>null\<close>, the
  callback for that transaction throws "Failed to find matching key for transaction sent
  to <receiverId>" at whatever index it stands, so no transaction object is built for it;
  \<open>transformTransactions\<close> then returns no batch, and that error is one it can reject with.
\<close>

theorem transformTransactions_no_key:
  assumes acct: "account env w = Some a"
    and lk: "getPublicKey env a (acc_accountId a) (conn_networkId a) w = Inr localKey"
    and t: "t \<in> set transactions"
    and none: "accessKeyForTransaction env a (receiverId t)
                 (map (createAction env) (actions t)) localKey w = Inr None"
  shows "(\<forall>i. assemble env a localKey w (i, t) =
            Inl (Error (''Failed to find matching key for transaction sent to ''
                          @ receiverId t)))
         \<and> (\<forall>out. \<not> transformTransactions env w transactions (Inr out))
         \<and> transformTransactions env w transactions
             (Inl (Error (''Failed to find matching key for transaction sent to ''
                            @ receiverId t)))"
proof -
  let ?err = "Error (''Failed to find matching key for transaction sent to '' @ receiverId t)"
  have one: "assemble env a localKey w (i, t) = Inl ?err" for i
    using none by (rule assemble_not_found)
  from t obtain i where i: "i < length transactions" and ti: "transactions ! i = t"
    by (auto simp: in_set_conv_nth)
  then have "(i, t) \<in> set (enumerate 0 transactions)"
    by (simp add: in_set_enumerate_eq)
  then have mem: "Inl ?err \<in> set (map (assemble env a localKey w) (enumerate 0 transactions))"
    using one [of i] by (metis image_eqI set_map)
  have "map (assemble env a localKey w) (enumerate 0 transactions) \<noteq> map Inr out" for out
  proof
    assume "map (assemble env a localKey w) (enumerate 0 transactions) = map Inr out"
    with mem have "Inl ?err \<in> set (map Inr out)" by simp
    then show False by auto
  qed
  with acct lk mem one show ?thesis
    by (simp add: transformTransactions_def promise_all_def)
qed

theorem transformTransactions_no_key_witness:
  "assemble ex_env (ex_account ''alice.near'') (Some (PublicKey ''ed25519:abc'')) w_signed_in
     (1, tx_to ''nokey.near'')
     = Inl (Error ''Failed to find matching key for transaction sent to nokey.near'')
   \<and> transformTransactions ex_env w_signed_in [tx_to ''bob.near'', tx_to ''nokey.near'']
       (Inl (Error ''Failed to find matching key for transaction sent to nokey.near''))
   \<and> (\<forall>out. \<not> transformTransactions ex_env w_signed_in
                 [tx_to ''bob.near'', tx_to ''nokey.near''] (Inr out))"
proof -
  have t: "tx_to ''nokey.near'' \<in> set [tx_to ''bob.near'', tx_to ''nokey.near'']"
    by simp
  have none: "accessKeyForTransaction ex_env (ex_account ''alice.near'')
      (receiverId (tx_to ''nokey.near''))
      (map (createAction ex_env) (actions (tx_to ''nokey.near'')))
      (Some (PublicKey ''ed25519:abc'')) w_signed_in = Inr None"
    by (simp add: ex_lookups)
  have r: "receiverId (tx_to ''nokey.near'') = ''nokey.near''"
    by (simp add: tx_to_def)
  from transformTransactions_no_key [OF ex_lookups(1) ex_lookups(2) t none]
  show ?thesis
    by (simp add: r)
qed

end
